theory Spec2Isabelle
  imports Main
begin

section \<open>Deal listing views of troupon (deals/baseviews.py)\<close>

text \<open>
  The module defines three view classes: \<open>DealListBaseView\<close>, \<open>CollectionsBaseView\<close> and
  \<open>DealCollectionItemsListBaseView\<close>. A view object is modelled by the attributes of its
  class and the dictionary of the instance, every method by a function that takes the
  view and returns either the exception raised or the result together with the view as
  the method left it.
\<close>

subsection \<open>Values\<close>

text \<open>
  Dates are proleptic Gregorian ordinals, as \<open>datetime.date.toordinal\<close> gives them:
  day 1 is 0001-01-01 and day 3652059 is 9999-12-31.
\<close>

record deal =
  deal_pk :: nat
  date_last_modified :: int

text \<open>A row of the model configured for the slug lookup.\<close>

record model_instance =
  instance_pk :: nat
  instance_slug :: string

text \<open>
  The date filter dictionary \<open>{'choices': ..., 'default': ...}\<close>. Each choice is a pair
  of a number of days and a label; a key that the dictionary does not have is \<open>None\<close>.
\<close>

record date_filter =
  choices :: "(int \<times> string) list option"
  default :: "int option"

text \<open>
  The request: \<open>GET\<close> lists the query parameters, each with the value that
  \<open>request.GET.get\<close> returns for it.
\<close>

record request =
  GET :: "(string \<times> string) list"

text \<open>
  The values that an attribute of a view or a keyword argument may hold: \<open>None\<close>, a
  number, a text, a query set of deals, a date filter dictionary, a list of choices, a
  row of a model. No value is a class and no value can be called.
\<close>

datatype pyval =
    PNone
  | PInt int
  | PStr string
  | PQuerySet "deal list"
  | PDateFilter date_filter
  | PChoices "(int \<times> string) list"
  | PInstance model_instance

datatype exn =
    NameError string
  | AttributeError
  | TypeError
  | ValueError
  | OverflowError
  | ZeroDivisionError
  | AssertionError
  | PageNotAnInteger
  | EmptyPage
  | DoesNotExist
  | MultipleObjectsReturned
  | Http404 pyval

subsection \<open>Built-in operations of Python\<close>

text \<open>
  The built-in \<open>int\<close> on a text is a parameter of the model, \<open>int_text\<close>: what counts as
  white space, as a digit and as a separator depends on the Unicode tables of the
  interpreter and on its version. \<open>int_text s\<close> is \<open>Some i\<close> when \<open>int(s)\<close> returns
  \<open>i\<close>, and \<open>None\<close> when it raises \<open>ValueError\<close>. Every definition that converts text
  takes the parameter, and every theorem holds for any function in its place.

  \<open>int(x)\<close> on a value: a number is itself, a text is parsed, anything else is a
  \<open>TypeError\<close>.
\<close>

fun py_int :: "(string \<Rightarrow> int option) \<Rightarrow> pyval \<Rightarrow> exn + int" where
  "py_int int_text (PInt i) = Inr i"
| "py_int int_text (PStr s) =
     (case int_text s of None \<Rightarrow> Inl ValueError | Some i \<Rightarrow> Inr i)"
| "py_int int_text _ = Inl TypeError"

text \<open>\<open>xs[b:t]\<close> on a Python sequence: a negative bound counts from the end, and both
  bounds are clipped to the sequence.\<close>

definition slice_bound :: "int \<Rightarrow> int \<Rightarrow> int" where
  "slice_bound i n = (if i < 0 then max 0 (i + n) else min i n)"

definition py_slice :: "'a list \<Rightarrow> int \<Rightarrow> int \<Rightarrow> 'a list" where
  "py_slice xs b t =
     (let n = int (length xs); lo = slice_bound b n; hi = slice_bound t n
      in take (nat (hi - lo)) (drop (nat lo) xs))"

text \<open>
  \<open>datetime.timedelta(days=d)\<close> and \<open>date - timedelta\<close>: both raise \<open>OverflowError\<close>
  outside the range that the types represent.
\<close>

definition timedelta :: "int \<Rightarrow> exn + int" where
  "timedelta days = (if \<bar>days\<bar> \<le> 999999999 then Inr days else Inl OverflowError)"

definition date_sub :: "int \<Rightarrow> int \<Rightarrow> exn + int" where
  "date_sub d td =
     (let r = d - td in if 1 \<le> r \<and> r \<le> 3652059 then Inr r else Inl OverflowError)"

text \<open>Sequencing of steps that may raise: the first exception ends the sequence.\<close>

definition and_then :: "exn + 'a \<Rightarrow> ('a \<Rightarrow> exn + 'b) \<Rightarrow> exn + 'b" where
  "and_then m f = (case m of Inl e \<Rightarrow> Inl e | Inr x \<Rightarrow> f x)"

subsection \<open>The paginator of the framework\<close>

text \<open>
  Modelled from the spec: the framework's \<open>Paginator\<close> and \<open>Page\<close> classes, which are
  imported by the module and are not part of it. The spec describes the collaborator as
  one that, "given a collection, a page size, and a minimum-orphan count, slices the
  collection into pages and exposes page count, current page items, and total count;
  raises distinguishable errors for not-an-integer and out-of-range page requests", with
  trailing orphans "absorbed into the prior page". The definitions follow the
  framework's class of that name, with the first page allowed to be empty (its default).
\<close>

record paginator =
  object_list :: pyval
  per_page :: int
  orphans :: int

record page =
  page_object_list :: pyval
  number :: int
  page_paginator :: paginator

definition Paginator ::
    "(string \<Rightarrow> int option) \<Rightarrow> pyval \<Rightarrow> pyval \<Rightarrow> pyval \<Rightarrow> exn + paginator" where
  "Paginator int_text ol pp orph =
     and_then (py_int int_text pp) (\<lambda>p.
     and_then (py_int int_text orph) (\<lambda>q.
     Inr \<lparr>object_list = ol, per_page = p, orphans = q\<rparr>))"

text \<open>The total number of objects: \<open>object_list.count()\<close> where that exists, else
  \<open>len(object_list)\<close>.\<close>

fun count :: "paginator \<Rightarrow> exn + int" where
  "count pg =
     (case object_list pg of
        PQuerySet ds \<Rightarrow> Inr (int (length ds))
      | PStr s \<Rightarrow> Inr (int (length s))
      | PChoices cs \<Rightarrow> Inr (int (length cs))
      | PDateFilter df \<Rightarrow>
          Inr ((if choices df = None then 0 else 1) + (if default df = None then 0 else 1))
      | _ \<Rightarrow> Inl TypeError)"

text \<open>The number of pages: \<open>ceil(max(1, count - orphans) / per_page)\<close>, the quotient
  taken exactly; a page size of 0 is a division by zero.\<close>

definition num_pages :: "paginator \<Rightarrow> exn + int" where
  "num_pages pg =
     and_then (count pg) (\<lambda>c.
       let hits = max 1 (c - orphans pg)
       in if per_page pg = 0 then Inl ZeroDivisionError
          else Inr (- ((- hits) div per_page pg)))"

definition validate_number ::
    "(string \<Rightarrow> int option) \<Rightarrow> paginator \<Rightarrow> pyval \<Rightarrow> exn + int" where
  "validate_number int_text pg n =
     (case py_int int_text n of
        Inl e \<Rightarrow> Inl PageNotAnInteger
      | Inr i \<Rightarrow>
          if i < 1 then Inl EmptyPage
          else and_then (num_pages pg) (\<lambda>np.
            if i > np then (if i = 1 then Inr i else Inl EmptyPage) else Inr i))"

text \<open>\<open>object_list[bottom:top]\<close>; a query set refuses a negative bound.\<close>

fun slice_objects :: "pyval \<Rightarrow> int \<Rightarrow> int \<Rightarrow> exn + pyval" where
  "slice_objects (PQuerySet ds) b t =
     (if b < 0 \<or> t < 0 then Inl AssertionError else Inr (PQuerySet (py_slice ds b t)))"
| "slice_objects (PStr s) b t = Inr (PStr (py_slice s b t))"
| "slice_objects (PChoices cs) b t = Inr (PChoices (py_slice cs b t))"
| "slice_objects _ b t = Inl TypeError"

definition page_of :: "(string \<Rightarrow> int option) \<Rightarrow> paginator \<Rightarrow> pyval \<Rightarrow> exn + page" where
  "page_of int_text pg n =
     and_then (validate_number int_text pg n) (\<lambda>i.
       let bottom = (i - 1) * per_page pg; top = bottom + per_page pg
       in and_then (count pg) (\<lambda>c.
            let top' = (if top + orphans pg \<ge> c then c else top)
            in and_then (slice_objects (object_list pg) bottom top') (\<lambda>items.
                 Inr \<lparr>page_object_list = items, number = i, page_paginator = pg\<rparr>)))"

subsection \<open>The view object and what the views produce\<close>

text \<open>
  The dictionary \<open>deals_listing\<close> of \<open>render_deal_list\<close>. The template renderer is a
  collaborator outside the module: the string it returns is represented by the name of
  the template and the context handed to it.
\<close>

record listing =
  deals_page :: page
  listing_date_filter :: pyval
  listing_title :: pyval
  listing_description :: pyval
  listing_pagination_base_url :: pyval

datatype rendered = Rendered string listing

text \<open>
  The contexts of the full pages. Both also carry the \<open>search_options\<close> block, which is
  the same constant in every context (an empty query, the state choices and the default
  state 25) and is left out.
\<close>

record collections_context =
  collections_page :: page
  context_title :: pyval
  context_description :: pyval
  context_pagination_base_url :: pyval

datatype page_context =
    DealListContext rendered
  | CollectionsContext collections_context

text \<open>The response of \<open>render(request, template, context)\<close>.\<close>

record response =
  response_template :: pyval
  response_context :: page_context

text \<open>
  \<open>class_attrs\<close> holds the options that the class of the view defines, \<open>inst_attrs\<close>
  is the dictionary of the instance. Five attributes have fields of their own, because
  what they hold is no option value: \<open>request\<close> and \<open>kwargs\<close>, which the framework's
  dispatch sets before a handler runs (the request and the routing parameters);
  \<open>model\<close>, the model class that a subclass configures, given by its rows (\<open>None\<close>
  while it is left at the default, the empty text); \<open>rendered_deal_list\<close> and
  \<open>view_context\<close> (\<open>self.rendered_deal_list\<close>, \<open>self.context\<close>), which \<open>do_render\<close> and
  \<open>set_context_data\<close> create. No path of the module reads one of the five after an
  override step that could have touched it.
\<close>

record view =
  class_attrs :: "string \<rightharpoonup> pyval"
  inst_attrs :: "string \<rightharpoonup> pyval"
  request :: request
  kwargs :: "(string \<times> string) list"
  model :: "model_instance list option"
  rendered_deal_list :: "rendered option"
  view_context :: "page_context option"

text \<open>Attribute lookup: the dictionary of the instance first, then the class.\<close>

definition attrs :: "view \<Rightarrow> string \<rightharpoonup> pyval" where
  "attrs self = class_attrs self ++ inst_attrs self"

definition getattr :: "view \<Rightarrow> string \<Rightarrow> exn + pyval" where
  "getattr self name =
     (case attrs self name of None \<Rightarrow> Inl AttributeError | Some v \<Rightarrow> Inr v)"

text \<open>The items of a date filter dictionary, as attributes.\<close>

definition dict_items :: "date_filter \<Rightarrow> string \<rightharpoonup> pyval" where
  "dict_items df =
     (\<lambda>name. if name = ''choices'' then map_option PChoices (choices df)
             else if name = ''default'' then map_option PInt (default df)
             else None)"

text \<open>
  The built-in \<open>setattr\<close> on a view, which is an instance of a plain class. Three names
  belong to the object protocol: \<open>__class__\<close> accepts classes only, and no value is one;
  \<open>__weakref__\<close> cannot be written; \<open>__dict__\<close> accepts a dictionary, which then
  replaces the dictionary of the instance, and raises for any other value. Every other
  name is bound in the dictionary of the instance.
\<close>

definition setattr :: "view \<Rightarrow> string \<Rightarrow> pyval \<Rightarrow> exn + view" where
  "setattr self name v =
     (if name = ''__class__'' then Inl TypeError
      else if name = ''__weakref__'' then Inl AttributeError
      else if name = ''__dict__'' then
        (case v of
           PDateFilter df \<Rightarrow> Inr (self\<lparr>inst_attrs := dict_items df\<rparr>)
         | _ \<Rightarrow> Inl TypeError)
      else Inr (self\<lparr>inst_attrs := (inst_attrs self)(name \<mapsto> v)\<rparr>))"

text \<open>The statement \<open>self.name = v\<close>, for the names that the module assigns to.\<close>

definition assign :: "view \<Rightarrow> string \<Rightarrow> pyval \<Rightarrow> view" where
  "assign self name v = self\<lparr>inst_attrs := (inst_attrs self)(name \<mapsto> v)\<rparr>"

text \<open>
  A change made inside the object that an attribute holds: the object is changed where
  it lives, in the dictionary of the instance or else in the class.
\<close>

definition store_in_place :: "view \<Rightarrow> string \<Rightarrow> pyval \<Rightarrow> view" where
  "store_in_place self name v =
     (if inst_attrs self name = None
      then self\<lparr>class_attrs := (class_attrs self)(name \<mapsto> v)\<rparr>
      else self\<lparr>inst_attrs := (inst_attrs self)(name \<mapsto> v)\<rparr>)"

definition GET_get :: "request \<Rightarrow> string \<Rightarrow> string option" where
  "GET_get req key = map_of (GET req) key"

text \<open>\<open>kwargs.get(arg_name)\<close> on the keyword dictionary of a call.\<close>

definition kwargs_get :: "(string \<times> pyval) list \<Rightarrow> string \<Rightarrow> pyval" where
  "kwargs_get kw name = (case map_of kw name of None \<Rightarrow> PNone | Some v \<Rightarrow> v)"

subsection \<open>DealListBaseView\<close>

text \<open>The class-level options (lines 24 to 32). \<open>Deal.objects.all()\<close> and \<open>EPOCH_CHOICES\<close>
  come from the module \<open>deals.models\<close> and are parameters.\<close>

definition DealListBaseView_attrs ::
    "deal list \<Rightarrow> (int \<times> string) list \<Rightarrow> (string \<times> pyval) list" where
  "DealListBaseView_attrs all_deals EPOCH_CHOICES =
     [(''deals'', PQuerySet all_deals),
      (''title'', PStr ''Deals''),
      (''description'', PStr []),
      (''zero_items_message'', PStr ''Sorry, no deals found!''),
      (''num_page_items'', PInt 15),
      (''min_orphan_items'', PInt 2),
      (''show_page_num'', PInt 1),
      (''pagination_base_url'', PStr []),
      (''date_filter'', PDateFilter \<lparr>choices = Some EPOCH_CHOICES, default = Some (- 1)\<rparr>)]"

text \<open>
  Lines 39 to 44 of \<open>render_deal_list\<close>: every keyword argument is assigned to the
  attribute of its name; an exception of the assignment is dropped, and the loop goes
  on with the next name.
\<close>

fun update_options :: "view \<Rightarrow> (string \<times> pyval) list \<Rightarrow> string list \<Rightarrow> view" where
  "update_options self kw [] = self"
| "update_options self kw (arg_name # names) =
     update_options
       (case setattr self arg_name (kwargs_get kw arg_name) of
          Inl e \<Rightarrow> self
        | Inr self' \<Rightarrow> self')
       kw names"

text \<open>\<open>self.date_filter.get('choices', [])\<close>. A query set has a method \<open>get\<close> too, which
  rejects these arguments.\<close>

fun get_choices :: "pyval \<Rightarrow> exn + (int \<times> string) list" where
  "get_choices (PDateFilter df) = Inr (case choices df of None \<Rightarrow> [] | Some cs \<Rightarrow> cs)"
| "get_choices (PQuerySet ds) = Inl ValueError"
| "get_choices _ = Inl AttributeError"

text \<open>\<open>self.deals.filter(date_last_modified__gt=filter_date)\<close>.\<close>

fun filter_date_last_modified_gt :: "pyval \<Rightarrow> int \<Rightarrow> exn + pyval" where
  "filter_date_last_modified_gt (PQuerySet ds) filter_date =
     Inr (PQuerySet (filter (\<lambda>d. filter_date < date_last_modified d) ds))"
| "filter_date_last_modified_gt _ filter_date = Inl AttributeError"

text \<open>\<open>self.date_filter['default'] = date_filter_delta\<close>: the dictionary with the item
  set.\<close>

fun set_default :: "pyval \<Rightarrow> int \<Rightarrow> exn + pyval" where
  "set_default (PDateFilter df) delta = Inr (PDateFilter (df\<lparr>default := Some delta\<rparr>))"
| "set_default _ delta = Inl TypeError"

text \<open>\<open>filter_deals_from_params\<close> (lines 92 to 114); \<open>today\<close> is
  \<open>datetime.date.today()\<close>. Line 112 binds \<open>deals\<close> on the instance; line 114 changes
  the date filter dictionary itself.\<close>

definition filter_deals_from_params ::
    "(string \<Rightarrow> int option) \<Rightarrow> int \<Rightarrow> view \<Rightarrow> request \<Rightarrow> exn + view" where
  "filter_deals_from_params int_text today self req =
     (case GET_get req ''dtf'' of
        None \<Rightarrow> Inr self
      | Some date_filter_param \<Rightarrow>
          if date_filter_param = [] then Inr self
          else
            (case int_text date_filter_param of
               None \<Rightarrow> Inr self
             | Some i \<Rightarrow>
                 and_then (getattr self ''date_filter'') (\<lambda>df.
                 and_then (get_choices df) (\<lambda>cs.
                   if i < 0 \<or> i \<ge> int (length cs) then Inr self
                   else
                     let date_filter_delta = fst (cs ! nat i) in
                     and_then
                       (if date_filter_delta \<noteq> - 1 then
                          and_then (timedelta date_filter_delta) (\<lambda>td.
                          and_then (date_sub today td) (\<lambda>filter_date.
                          and_then (getattr self ''deals'') (\<lambda>deals.
                          and_then (filter_date_last_modified_gt deals filter_date) (\<lambda>deals'.
                          Inr (assign self ''deals'' deals')))))
                        else Inr self) (\<lambda>self'.
                     and_then (getattr self' ''date_filter'') (\<lambda>df'.
                     and_then (set_default df' date_filter_delta) (\<lambda>df''.
                     Inr (store_in_place self' ''date_filter'' df''))))))))"

text \<open>
  Lines 55 to 66 of \<open>render_deal_list\<close> and lines 156 to 167 of
  \<open>CollectionsBaseView.get\<close>, which are the same block: the page asked for by \<open>pg\<close>, or
  the default page when \<open>pg\<close> is missing or empty; page 1 when the page is not an
  integer, the last page when it is out of range.
\<close>

definition deliver_page ::
    "(string \<Rightarrow> int option) \<Rightarrow> paginator \<Rightarrow> view \<Rightarrow> request \<Rightarrow> exn + page" where
  "deliver_page int_text pg self req =
     (let r =
        (case GET_get req ''pg'' of
           None \<Rightarrow> and_then (getattr self ''show_page_num'') (page_of int_text pg)
         | Some show_page_num \<Rightarrow>
             if show_page_num = []
             then and_then (getattr self ''show_page_num'') (page_of int_text pg)
             else page_of int_text pg (PStr show_page_num))
      in if r = Inl PageNotAnInteger then page_of int_text pg (PInt 1)
         else if r = Inl EmptyPage
           then and_then (num_pages pg) (\<lambda>n. page_of int_text pg (PInt n))
         else r)"

text \<open>Lines 68 to 72 and 169 to 173: the description for the list header.\<close>

definition choose_description :: "page \<Rightarrow> view \<Rightarrow> exn + pyval" where
  "choose_description p self =
     and_then (count (page_paginator p)) (\<lambda>c.
       if c \<noteq> 0 then getattr self ''description''
       else getattr self ''zero_items_message'')"

text \<open>
  Line 47 looks \<open>filter_deals_from_params\<close> up on the view: an attribute of that name,
  which the assignments before it can create, is found in place of the method, and no
  value can be called.
\<close>

definition call_filter_deals_from_params ::
    "(string \<Rightarrow> int option) \<Rightarrow> int \<Rightarrow> view \<Rightarrow> request \<Rightarrow> exn + view" where
  "call_filter_deals_from_params int_text today self req =
     (case attrs self ''filter_deals_from_params'' of
        None \<Rightarrow> filter_deals_from_params int_text today self req
      | Some v \<Rightarrow> Inl TypeError)"

definition render_deal_list ::
    "(string \<Rightarrow> int option) \<Rightarrow> int \<Rightarrow> view \<Rightarrow> request \<Rightarrow> (string \<times> pyval) list
     \<Rightarrow> exn + rendered \<times> view" where
  "render_deal_list int_text today self req kw =
     (let self1 = update_options self kw (map fst kw) in
      and_then (call_filter_deals_from_params int_text today self1 req) (\<lambda>self2.
      and_then (getattr self2 ''deals'') (\<lambda>deals.
      and_then (getattr self2 ''num_page_items'') (\<lambda>n.
      and_then (getattr self2 ''min_orphan_items'') (\<lambda>m.
      and_then (Paginator int_text deals n m) (\<lambda>pg.
      and_then (deliver_page int_text pg self2 req) (\<lambda>p.
      and_then (choose_description p self2) (\<lambda>description.
      and_then (getattr self2 ''date_filter'') (\<lambda>df.
      and_then (getattr self2 ''title'') (\<lambda>title.
      and_then (getattr self2 ''pagination_base_url'') (\<lambda>url.
      Inr (Rendered ''snippet_deal_listing.html''
             \<lparr>deals_page = p, listing_date_filter = df, listing_title = title,
              listing_description = description, listing_pagination_base_url = url\<rparr>,
           self2))))))))))))"

definition DealListBaseView_get ::
    "(string \<Rightarrow> int option) \<Rightarrow> int \<Rightarrow> view \<Rightarrow> request \<Rightarrow> exn + response \<times> view" where
  "DealListBaseView_get int_text today self req =
     and_then (render_deal_list int_text today self req []) (\<lambda>(r, self').
     Inr (\<lparr>response_template = PStr ''deals/deal_list_base.html'',
           response_context = DealListContext r\<rparr>, self'))"

subsection \<open>CollectionsBaseView\<close>

definition CollectionsBaseView_attrs :: "(string \<times> pyval) list" where
  "CollectionsBaseView_attrs =
     [(''zero_items_message'', PStr ''Sorry, no collection items found!''),
      (''num_page_items'', PInt 9),
      (''min_orphan_items'', PInt 3),
      (''show_page_num'', PInt 1),
      (''pagination_base_url'', PStr []),
      (''queryset'', PStr []),
      (''title'', PStr ''Collection listing''),
      (''description'', PStr ''See all collection items''),
      (''template'', PStr [])]"

text \<open>\<open>get\<close> (lines 144 to 188). The template engine is a collaborator outside the
  module and is taken to find the template.\<close>

definition CollectionsBaseView_get ::
    "(string \<Rightarrow> int option) \<Rightarrow> view \<Rightarrow> exn + response \<times> view" where
  "CollectionsBaseView_get int_text self =
     and_then (getattr self ''template'') (\<lambda>t.
     and_then (getattr self ''queryset'') (\<lambda>qs.
     and_then (getattr self ''num_page_items'') (\<lambda>n.
     and_then (getattr self ''min_orphan_items'') (\<lambda>m.
     and_then (Paginator int_text qs n m) (\<lambda>pg.
     and_then (deliver_page int_text pg self (request self)) (\<lambda>p.
     and_then (choose_description p self) (\<lambda>description.
     and_then (getattr self ''title'') (\<lambda>title.
     and_then (getattr self ''pagination_base_url'') (\<lambda>url.
     and_then (getattr self ''template'') (\<lambda>template.
     Inr (\<lparr>response_template = template,
           response_context = CollectionsContext
             \<lparr>collections_page = p, context_title = title,
              context_description = description, context_pagination_base_url = url\<rparr>\<rparr>,
          self)))))))))))"

subsection \<open>DealCollectionItemsListBaseView\<close>

text \<open>The class extends \<open>DealListBaseView\<close>; these are the options it adds or replaces
  (lines 194 to 200; \<open>model\<close> is the field of that name). Its methods call one another
  as the class defines them: a view whose attributes hide one of them is not modelled.\<close>

definition DealCollectionItemsListBaseView_attrs ::
    "deal list \<Rightarrow> (int \<times> string) list \<Rightarrow> (string \<times> pyval) list" where
  "DealCollectionItemsListBaseView_attrs all_deals EPOCH_CHOICES =
     [(''title'', PStr []),
      (''queryset'', PStr []),
      (''slug_name'', PStr []),
      (''not_found'', PStr []),
      (''template'', PStr []),
      (''filter_field'', PStr [])]
     @ DealListBaseView_attrs all_deals EPOCH_CHOICES"

text \<open>
  The names bound at the top level of the module: its imports (lines 1 to 8) and its
  three classes. A name that is neither local, nor bound here, nor built in raises
  \<open>NameError\<close> when it is evaluated; the one such name that the module evaluates,
  \<open>Http404\<close>, is not a built-in name of Python.
\<close>

definition module_globals :: "string list" where
  "module_globals =
     [''datetime'', ''render'', ''View'', ''RequestContext'', ''loader'', ''Engine'',
      ''Paginator'', ''EmptyPage'', ''PageNotAnInteger'', ''Deal'', ''STATE_CHOICES'',
      ''EPOCH_CHOICES'', ''DealListBaseView'', ''CollectionsBaseView'',
      ''DealCollectionItemsListBaseView'']"

definition global_name :: "string \<Rightarrow> exn + unit" where
  "global_name name =
     (if name \<in> set module_globals then Inr () else Inl (NameError name))"

text \<open>\<open>self.model.objects.get(slug=slug)\<close>: the one row with that slug. The default
  \<open>model\<close>, a text, has no manager.\<close>

fun objects_get :: "model_instance list option \<Rightarrow> string option \<Rightarrow> exn + model_instance" where
  "objects_get (Some rows) slug =
     (case filter (\<lambda>r. Some (instance_slug r) = slug) rows of
        [] \<Rightarrow> Inl DoesNotExist
      | [r] \<Rightarrow> Inr r
      | _ \<Rightarrow> Inl MultipleObjectsReturned)"
| "objects_get None slug = Inl AttributeError"

definition get_queryset :: "view \<Rightarrow> string option \<Rightarrow> exn + pyval \<times> view" where
  "get_queryset self slug =
     and_then (objects_get (model self) slug) (\<lambda>r.
     Inr (PInstance r, assign self ''queryset'' (PInstance r)))"

text \<open>\<open>self.kwargs.get(self.slug_name)\<close>: a dictionary or a list cannot be a key.\<close>

fun kwargs_slug :: "(string \<times> string) list \<Rightarrow> pyval \<Rightarrow> exn + string option" where
  "kwargs_slug kw (PStr name) = Inr (map_of kw name)"
| "kwargs_slug kw (PDateFilter df) = Inl TypeError"
| "kwargs_slug kw (PChoices cs) = Inl TypeError"
| "kwargs_slug kw _ = Inr None"

definition set_context_data :: "view \<Rightarrow> exn + view" where
  "set_context_data self =
     (case rendered_deal_list self of
        None \<Rightarrow> Inl AttributeError
      | Some r \<Rightarrow> Inr (self\<lparr>view_context := Some (DealListContext r)\<rparr>))"

definition set_description :: "view \<Rightarrow> pyval \<Rightarrow> view" where
  "set_description self desc = assign self ''description'' desc"

definition set_title :: "view \<Rightarrow> pyval \<Rightarrow> view" where
  "set_title self title = assign self ''title'' title"

text \<open>\<open>filter_deals\<close>: \<open>Deal.objects.filter(**filter)\<close> belongs to \<open>deals.models\<close> and is
  the parameter \<open>Deal_objects_filter\<close>.\<close>

definition filter_deals ::
    "((string \<times> string) list \<Rightarrow> exn + deal list) \<Rightarrow> view \<Rightarrow> (string \<times> string) list
     \<Rightarrow> exn + view" where
  "filter_deals Deal_objects_filter self flt =
     and_then (Deal_objects_filter flt) (\<lambda>ds. Inr (assign self ''deals'' (PQuerySet ds)))"

definition do_render :: "(string \<Rightarrow> int option) \<Rightarrow> int \<Rightarrow> view \<Rightarrow> exn + response \<times> view" where
  "do_render int_text today self =
     and_then (getattr self ''deals'') (\<lambda>deals.
     and_then (getattr self ''title'') (\<lambda>title.
     and_then (getattr self ''description'') (\<lambda>description.
     and_then (render_deal_list int_text today self (request self)
                 [(''deals'', deals), (''title'', title), (''description'', description)])
       (\<lambda>(r, self1).
     let self2 = self1\<lparr>rendered_deal_list := Some r\<rparr> in
     and_then (set_context_data self2) (\<lambda>self3.
     and_then (getattr self3 ''template'') (\<lambda>template.
     (case view_context self3 of
        None \<Rightarrow> Inl AttributeError
      | Some c \<Rightarrow> Inr (\<lparr>response_template = template, response_context = c\<rparr>, self3))))))))"

text \<open>
  \<open>get\<close> (lines 208 to 219). The result is what the method returns: \<open>None\<close> when it
  reaches its end without a \<open>return\<close> statement.
\<close>

definition DealCollectionItemsListBaseView_get ::
    "(string \<Rightarrow> int option) \<Rightarrow> ((string \<times> string) list \<Rightarrow> exn + deal list) \<Rightarrow> int \<Rightarrow> view
     \<Rightarrow> (string \<times> string) list \<Rightarrow> exn + response option \<times> view" where
  "DealCollectionItemsListBaseView_get int_text Deal_objects_filter today self kw =
     and_then (getattr self ''slug_name'') (\<lambda>slug_name.
     and_then (kwargs_slug (kwargs self) slug_name) (\<lambda>slug.
     and_then
       (let r = get_queryset self slug in
        if r = Inl DoesNotExist then
          and_then (global_name ''Http404'') (\<lambda>u.
          and_then (getattr self ''not_found'') (\<lambda>not_found.
          Inl (Http404 not_found)))
        else r) (\<lambda>(q, self1).
     and_then (filter_deals Deal_objects_filter self1 kw) (\<lambda>self2.
     let self3 = set_title self2 (PStr ''some title'');
         self4 = set_description self3 (PStr ''some desc'') in
     and_then (do_render int_text today self4) (\<lambda>(resp, self5).
     Inr (None, self5))))))"

subsection \<open>Example data\<close>

text \<open>
  The choices of the example in the spec, a few deals around the first of January 2016
  (day 735964), and one view of each class with its options at their defaults.
\<close>

definition example_choices :: "(int \<times> string) list" where
  "example_choices = [(- 1, ''All time''), (7, ''Last week''), (30, ''Last month'')]"

definition example_today :: int where
  "example_today = 735964"

definition example_deals :: "deal list" where
  "example_deals =
     [\<lparr>deal_pk = 1, date_last_modified = 735960\<rparr>,
      \<lparr>deal_pk = 2, date_last_modified = 735950\<rparr>,
      \<lparr>deal_pk = 3, date_last_modified = 735957\<rparr>,
      \<lparr>deal_pk = 4, date_last_modified = 735958\<rparr>]"

definition sixteen_deals :: "deal list" where
  "sixteen_deals = map (\<lambda>k. \<lparr>deal_pk = k, date_last_modified = 735960\<rparr>) [1..<17]"

text \<open>
  The examples put a handful of texts into query parameters: the numerals below, which
  \<open>int\<close> reads as their numbers in every version of Python, and the words \<open>abc\<close> and
  \<open>last\<close>, which it rejects. \<open>example_int\<close> is \<open>int\<close> on these texts and stands for
  the parameter \<open>int_text\<close> in the examples, where no other text is converted.
\<close>

definition example_int :: "string \<Rightarrow> int option" where
  "example_int =
     map_of [(''0'', 0), (''1'', 1), (''2'', 2), (''3'', 3), (''5'', 5), (''7'', 7)]"

definition example_view :: view where
  "example_view =
     \<lparr>class_attrs = map_of (DealListBaseView_attrs example_deals example_choices),
      inst_attrs = Map.empty,
      request = \<lparr>GET = []\<rparr>, kwargs = [], model = None,
      rendered_deal_list = None, view_context = None\<rparr>"

definition example_collections_view :: view where
  "example_collections_view =
     \<lparr>class_attrs = map_of ([(''queryset'', PQuerySet example_deals),
                              (''template'', PStr ''collection.html'')]
                             @ CollectionsBaseView_attrs),
      inst_attrs = Map.empty,
      request = \<lparr>GET = []\<rparr>, kwargs = [], model = None,
      rendered_deal_list = None, view_context = None\<rparr>"

definition example_items_view :: view where
  "example_items_view =
     \<lparr>class_attrs = map_of ([(''slug_name'', PStr ''category_slug''),
                              (''not_found'', PStr ''Category not found''),
                              (''template'', PStr ''deals/deal_list_base.html'')]
                             @ DealCollectionItemsListBaseView_attrs example_deals
                                 example_choices),
      inst_attrs = Map.empty,
      request = \<lparr>GET = []\<rparr>, kwargs = [(''category_slug'', ''beauty'')],
      model = Some [\<lparr>instance_pk = 1, instance_slug = ''beauty''\<rparr>],
      rendered_deal_list = None, view_context = None\<rparr>"

definition example_Deal_objects_filter :: "(string \<times> string) list \<Rightarrow> exn + deal list" where
  "example_Deal_objects_filter flt = Inr example_deals"

text \<open>\<open>self.date_filter['default']\<close>, read back from a view.\<close>

definition date_filter_default :: "view \<Rightarrow> int option" where
  "date_filter_default self =
     (case attrs self ''date_filter'' of Some (PDateFilter df) \<Rightarrow> default df | _ \<Rightarrow> None)"

subsection \<open>Well-configured views\<close>

text \<open>
  A view is set up to list the collection \<open>ds\<close>, held by its attribute \<open>coll\<close>, in pages
  of \<open>n\<close> items with \<open>m\<close> orphans when these three options have those values, the page
  size is positive, and the remaining listing options exist.
\<close>

definition listing_options :: "view \<Rightarrow> string \<Rightarrow> deal list \<Rightarrow> int \<Rightarrow> int \<Rightarrow> bool" where
  "listing_options self coll ds n m =
     (attrs self coll = Some (PQuerySet ds)
      \<and> attrs self ''num_page_items'' = Some (PInt n) \<and> 0 < n
      \<and> attrs self ''min_orphan_items'' = Some (PInt m)
      \<and> list_all (\<lambda>name. attrs self name \<noteq> None)
           [''show_page_num'', ''description'', ''zero_items_message'', ''title'',
            ''pagination_base_url''])"

text \<open>The names of the object protocol on which \<open>setattr\<close> does not bind.\<close>

definition protocol_names :: "string set" where
  "protocol_names = {''__class__'', ''__weakref__'', ''__dict__''}"


section \<open>Properties\<close>

subsection \<open>Basic facts\<close>

lemma and_then_Inr [simp]: "and_then (Inr x) f = f x"
  by (simp add: and_then_def)

lemma and_then_Inl [simp]: "and_then (Inl e) f = Inl e"
  by (simp add: and_then_def)

lemma getattr_Some [simp]: "attrs self name = Some v \<Longrightarrow> getattr self name = Inr v"
  by (simp add: getattr_def)

lemma getattr_None [simp]: "attrs self name = None \<Longrightarrow> getattr self name = Inl AttributeError"
  by (simp add: getattr_def)

lemma attrs_assign [simp]: "attrs (assign self name v) = (attrs self)(name \<mapsto> v)"
  by (simp add: assign_def attrs_def)

lemma attrs_store_in_place [simp]:
  "attrs (store_in_place self name v) = (attrs self)(name \<mapsto> v)"
  by (auto simp: store_in_place_def attrs_def fun_eq_iff map_add_def split: option.splits)

lemma assign_fields [simp]:
  "request (assign self name v) = request self"
  "kwargs (assign self name v) = kwargs self"
  "model (assign self name v) = model self"
  "rendered_deal_list (assign self name v) = rendered_deal_list self"
  "view_context (assign self name v) = view_context self"
  by (simp_all add: assign_def)

subsection \<open>The keyword overrides\<close>

lemma setattr_protocol_name:
  assumes "name \<in> protocol_names"
    and "\<forall>df. name = ''__dict__'' \<longrightarrow> v \<noteq> PDateFilter df"
  shows "\<exists>e. setattr self name v = Inl e"
  using assms by (cases v) (auto simp: setattr_def protocol_names_def)

lemma setattr_other_name:
  "name \<notin> protocol_names \<Longrightarrow>
   setattr self name v = Inr (self\<lparr>inst_attrs := (inst_attrs self)(name \<mapsto> v)\<rparr>)"
  by (simp add: setattr_def protocol_names_def)

lemma update_options_inst_attrs:
  assumes "\<forall>df. map_of kw ''__dict__'' \<noteq> Some (PDateFilter df)"
  shows "update_options self kw names =
     self\<lparr>inst_attrs := (\<lambda>n. if n \<in> set names \<and> n \<notin> protocol_names
                               then Some (kwargs_get kw n) else inst_attrs self n)\<rparr>"
proof (induction names arbitrary: self)
  case Nil
  show ?case by simp
next
  case (Cons a names)
  show ?case
  proof (cases "a \<in> protocol_names")
    case True
    have "\<forall>df. a = ''__dict__'' \<longrightarrow> kwargs_get kw a \<noteq> PDateFilter df"
      using assms by (auto simp: kwargs_get_def split: option.splits)
    from setattr_protocol_name [OF True this]
    obtain e where "setattr self a (kwargs_get kw a) = Inl e" by blast
    with True show ?thesis by (simp add: Cons.IH fun_eq_iff)
  next
    case False
    then show ?thesis by (simp add: setattr_other_name Cons.IH fun_eq_iff)
  qed
qed





subsection \<open>The date filter\<close>

text \<open>
  C4. When the parameter \<open>dtf\<close> is absent, or is empty, or is a text that \<open>int\<close>
  rejects, or is a text that \<open>int\<close> reads as a number that is negative or not below the
  number of configured choices, \<open>filter_deals_from_params\<close> returns without an exception
  and leaves the view, its deals and its date filter included, as it was.
\<close>

theorem filter_deals_from_params_noop:
  assumes "GET_get req ''dtf'' = None
     \<or> GET_get req ''dtf'' = Some []
     \<or> (\<exists>s. GET_get req ''dtf'' = Some s \<and> int_text s = None)
     \<or> (\<exists>s i df. GET_get req ''dtf'' = Some s \<and> int_text s = Some i
           \<and> attrs self ''date_filter'' = Some (PDateFilter df)
           \<and> (i < 0 \<or> int (length (case choices df of None \<Rightarrow> [] | Some cs \<Rightarrow> cs)) \<le> i))"
  shows "filter_deals_from_params int_text today self req = Inr self"
  using assms by (auto simp: filter_deals_from_params_def)

lemma example_view_date_filter:
  "attrs example_view ''date_filter''
     = Some (PDateFilter \<lparr>choices = Some example_choices, default = Some (- 1)\<rparr>)"
  by (simp add: example_view_def DealListBaseView_attrs_def attrs_def)

lemma example_view_deals: "attrs example_view ''deals'' = Some (PQuerySet example_deals)"
  by (simp add: example_view_def DealListBaseView_attrs_def attrs_def)

theorem filter_deals_from_params_noop_witness:
  "filter_deals_from_params example_int example_today example_view \<lparr>GET = []\<rparr>
     = Inr example_view
   \<and> filter_deals_from_params example_int example_today example_view
       \<lparr>GET = [(''dtf'', [])]\<rparr> = Inr example_view
   \<and> filter_deals_from_params example_int example_today example_view
       \<lparr>GET = [(''dtf'', ''last'')]\<rparr> = Inr example_view
   \<and> filter_deals_from_params example_int example_today example_view
       \<lparr>GET = [(''dtf'', ''3'')]\<rparr> = Inr example_view"
proof -
  have h1: "GET_get \<lparr>GET = []\<rparr> ''dtf'' = None"
    by (simp add: GET_get_def)
  have h2: "GET_get \<lparr>GET = [(''dtf'', [])]\<rparr> ''dtf'' = Some []"
    by (simp add: GET_get_def)
  have h3: "GET_get \<lparr>GET = [(''dtf'', ''last'')]\<rparr> ''dtf'' = Some ''last''
      \<and> example_int ''last'' = None"
    by (simp add: GET_get_def example_int_def)
  have h4: "GET_get \<lparr>GET = [(''dtf'', ''3'')]\<rparr> ''dtf'' = Some ''3''
      \<and> example_int ''3'' = Some 3
      \<and> attrs example_view ''date_filter''
          = Some (PDateFilter \<lparr>choices = Some example_choices, default = Some (- 1)\<rparr>)
      \<and> int (length (case choices \<lparr>choices = Some example_choices, default = Some (- 1)\<rparr>
                       of None \<Rightarrow> [] | Some cs \<Rightarrow> cs)) \<le> 3"
    by (simp add: GET_get_def example_int_def example_view_date_filter example_choices_def)
  show ?thesis
    using filter_deals_from_params_noop
        [of "\<lparr>GET = []\<rparr>" example_int example_view example_today]
      filter_deals_from_params_noop
        [of "\<lparr>GET = [(''dtf'', [])]\<rparr>" example_int example_view example_today]
      filter_deals_from_params_noop
        [of "\<lparr>GET = [(''dtf'', ''last'')]\<rparr>" example_int example_view example_today]
      filter_deals_from_params_noop
        [of "\<lparr>GET = [(''dtf'', ''3'')]\<rparr>" example_int example_view example_today]
      h1 h2 h3 h4
    by blast
qed

text \<open>
  C2 (as the code has it). For a request whose \<open>dtf\<close> is a text that \<open>int\<close> reads as an
  index \<open>i\<close> into the configured choices, \<open>filter_deals_from_params\<close> sets
  \<open>date_filter['default']\<close> to the number of days \<open>d\<close> of the chosen pair, not to the
  index; this includes the choice \<open>d = -1\<close>, which restricts nothing. For every other
  \<open>d\<close> the deals have to be a query set and \<open>today - d\<close> a date that the calendar has,
  as the filter runs first. (A text that \<open>int\<close> reads is not empty.)
\<close>

theorem filter_deals_from_params_records_delta:
  assumes "GET_get req ''dtf'' = Some s" and "s \<noteq> []" and "int_text s = Some i"
    and "attrs self ''date_filter'' = Some (PDateFilter df)" and "choices df = Some cs"
    and "0 \<le> i" and "i < int (length cs)" and "fst (cs ! nat i) = d"
    and "d = - 1 \<or> (\<exists>ds. attrs self ''deals'' = Some (PQuerySet ds))
           \<and> \<bar>d\<bar> \<le> 999999999 \<and> 1 \<le> today - d \<and> today - d \<le> 3652059"
  shows "map_sum id date_filter_default (filter_deals_from_params int_text today self req)
           = Inr (Some d)"
  using assms
  by (auto simp: filter_deals_from_params_def timedelta_def date_sub_def Let_def
      date_filter_default_def)

theorem filter_deals_from_params_records_delta_witness:
  "map_sum id date_filter_default
     (filter_deals_from_params example_int example_today example_view
        \<lparr>GET = [(''dtf'', ''0'')]\<rparr>)
     = Inr (Some (- 1))
   \<and> map_sum id date_filter_default
     (filter_deals_from_params example_int example_today example_view
        \<lparr>GET = [(''dtf'', ''2'')]\<rparr>)
     = Inr (Some 30)"
proof -
  have p0: "GET_get \<lparr>GET = [(''dtf'', ''0'')]\<rparr> ''dtf'' = Some ''0''"
      "''0'' \<noteq> []" "example_int ''0'' = Some 0"
    by (simp_all add: GET_get_def example_int_def)
  have p2: "GET_get \<lparr>GET = [(''dtf'', ''2'')]\<rparr> ''dtf'' = Some ''2''"
      "''2'' \<noteq> []" "example_int ''2'' = Some 2"
    by (simp_all add: GET_get_def example_int_def)
  have "map_sum id date_filter_default
     (filter_deals_from_params example_int example_today example_view
        \<lparr>GET = [(''dtf'', ''0'')]\<rparr>)
     = Inr (Some (- 1))"
    using filter_deals_from_params_records_delta
      [where int_text = example_int and cs = example_choices and d = "- 1"
        and today = example_today,
        OF p0 example_view_date_filter]
    by (simp add: example_choices_def)
  moreover have "map_sum id date_filter_default
     (filter_deals_from_params example_int example_today example_view
        \<lparr>GET = [(''dtf'', ''2'')]\<rparr>)
     = Inr (Some 30)"
    using filter_deals_from_params_records_delta
      [where int_text = example_int and cs = example_choices and d = 30
        and today = example_today,
        OF p2 example_view_date_filter]
      example_view_deals
    by (simp add: example_choices_def example_today_def)
  ultimately show ?thesis by simp
qed

text \<open>
  C2 as stated fails on the example of the spec: with the choices \<open>(-1, All time)\<close>,
  \<open>(7, Last week)\<close>, \<open>(30, Last month)\<close> and the request \<open>dtf=1\<close>, the accepted index is 1 and
  \<open>date_filter['default']\<close> becomes 7.
\<close>

theorem default_is_delta_not_index:
  "example_int ''1'' = Some 1
   \<and> map_sum id date_filter_default
       (filter_deals_from_params example_int example_today example_view
          \<lparr>GET = [(''dtf'', ''1'')]\<rparr>)
       = Inr (Some 7)"
  by (simp add: filter_deals_from_params_def GET_get_def example_int_def
      example_view_date_filter example_view_deals
      example_choices_def example_today_def example_deals_def timedelta_def date_sub_def
      date_filter_default_def)



subsection \<open>The slug lookup\<close>

text \<open>
  When the configured model has no row with the slug, \<open>get_queryset\<close> raises the model's
  \<open>DoesNotExist\<close>. The handler of \<open>get\<close> then evaluates the name \<open>Http404\<close>, which the
  module never imports, so what leaves \<open>get\<close> is a \<open>NameError\<close> and never an \<open>Http404\<close>.
\<close>

lemma objects_get_no_row:
  "\<forall>r \<in> set rows. Some (instance_slug r) \<noteq> slug \<Longrightarrow>
   objects_get (Some rows) slug = Inl DoesNotExist"
  by simp

lemma get_slug_not_found:
  assumes "attrs self ''slug_name'' = Some slug_name"
    and "kwargs_slug (kwargs self) slug_name = Inr slug"
    and "model self = Some rows"
    and "\<forall>r \<in> set rows. Some (instance_slug r) \<noteq> slug"
  shows "DealCollectionItemsListBaseView_get int_text Deal_objects_filter today self kw
           = Inl (NameError ''Http404'')"
  using assms
  by (simp add: DealCollectionItemsListBaseView_get_def get_queryset_def objects_get_no_row
      global_name_def module_globals_def)

text \<open>
  C1 at a failing input: the model has the one row \<open>beauty\<close>, the routing parameters ask
  for \<open>travel\<close>. The claim expects \<open>Http404\<close> with the \<open>not_found\<close> message; the code raises
  \<open>NameError\<close>.
\<close>

theorem get_missing_slug_raises_NameError:
  "DealCollectionItemsListBaseView_get int_text example_Deal_objects_filter example_today
     (example_items_view\<lparr>kwargs := [(''category_slug'', ''travel'')]\<rparr>)
     [(''category_slug'', ''travel'')]
     = Inl (NameError ''Http404'')"
  by (simp add: DealCollectionItemsListBaseView_get_def get_queryset_def
      global_name_def module_globals_def example_items_view_def attrs_def)


subsection \<open>The paginator\<close>

lemma ceil_div_ge1:
  fixes h p :: int
  assumes "1 \<le> h" and "0 < p"
  shows "- h div p \<le> - 1"
proof -
  have "(- h) div p < 0" using assms by (intro div_neg_pos_less0) simp_all
  then show ?thesis by simp
qed

lemma num_pages_queryset:
  assumes "object_list pg = PQuerySet ds" and "0 < per_page pg"
  shows "\<exists>np. num_pages pg = Inr np \<and> 1 \<le> np"
  using assms by (simp add: num_pages_def Let_def ceil_div_ge1)

lemma page_of_not_integer:
  "py_int int_text v = Inl e \<Longrightarrow> page_of int_text pg v = Inl PageNotAnInteger"
  by (simp add: page_of_def validate_number_def)

lemma page_of_out_of_range:
  assumes "py_int int_text v = Inr i" and "num_pages pg = Inr np" and "1 \<le> np" and "i < 1 \<or> np < i"
  shows "page_of int_text pg v = Inl EmptyPage"
  using assms by (auto simp: page_of_def validate_number_def)

lemma page_of_in_range:
  assumes "object_list pg = PQuerySet ds" and "0 < per_page pg"
    and "py_int int_text v = Inr i" and "num_pages pg = Inr np" and "1 \<le> i" and "i \<le> np"
  shows "page_of int_text pg v =
           Inr \<lparr>page_object_list =
                  PQuerySet (py_slice ds ((i - 1) * per_page pg)
                    (if int (length ds) \<le> (i - 1) * per_page pg + per_page pg + orphans pg
                     then int (length ds) else (i - 1) * per_page pg + per_page pg)),
                number = i, page_paginator = pg\<rparr>"
proof -
  have b: "0 \<le> (i - 1) * per_page pg"
    using assms(2,5) by (intro mult_nonneg_nonneg) simp_all
  then have t: "0 \<le> (i - 1) * per_page pg + per_page pg" using assms(2) by simp
  have v: "validate_number int_text pg v = Inr i"
    using assms by (simp add: validate_number_def)
  have s1: "slice_objects (PQuerySet ds) ((i - 1) * per_page pg) (int (length ds)) =
      Inr (PQuerySet (py_slice ds ((i - 1) * per_page pg) (int (length ds))))"
    using b by (simp only: slice_objects.simps not_less [symmetric]) simp
  have s2: "slice_objects (PQuerySet ds) ((i - 1) * per_page pg)
        ((i - 1) * per_page pg + per_page pg) =
      Inr (PQuerySet (py_slice ds ((i - 1) * per_page pg)
        ((i - 1) * per_page pg + per_page pg)))"
    using b t by (simp only: slice_objects.simps not_less [symmetric]) simp
  show ?thesis
    unfolding page_of_def v using assms(1) s1 s2
    by (simp add: Let_def del: slice_objects.simps)
qed

lemma page_of_number:
  assumes "object_list pg = PQuerySet ds" and "0 < per_page pg"
    and "num_pages pg = Inr np" and "1 \<le> i" and "i \<le> np"
  shows "\<exists>p. page_of int_text pg (PInt i) = Inr p \<and> number p = i \<and> page_paginator p = pg"
  using page_of_in_range [where v = "PInt i", OF assms(1,2) _ assms(3,4,5)] by simp

text \<open>The page that the block of lines 55 to 66 delivers for a requested value \<open>v\<close>.\<close>

lemma page_with_fallback:
  assumes "object_list pg = PQuerySet ds" and "0 < per_page pg" and "num_pages pg = Inr np"
  shows "(let r = page_of int_text pg v
          in if r = Inl PageNotAnInteger then page_of int_text pg (PInt 1)
             else if r = Inl EmptyPage then and_then (num_pages pg) (\<lambda>n. page_of int_text pg (PInt n))
             else r)
         = page_of int_text pg (PInt (case py_int int_text v of
                               Inl e \<Rightarrow> 1
                             | Inr i \<Rightarrow> if i < 1 \<or> np < i then np else i))"
proof -
  from num_pages_queryset [OF assms(1,2)] assms(3) have np: "1 \<le> np" by simp
  show ?thesis
  proof (cases "py_int int_text v")
    case (Inl e)
    then show ?thesis by (simp add: page_of_not_integer)
  next
    case (Inr i)
    show ?thesis
    proof (cases "i < 1 \<or> np < i")
      case True
      with Inr assms(3) np show ?thesis
        by (simp add: page_of_out_of_range [OF Inr assms(3) np True])
    next
      case False
      then have r: "1 \<le> i" "i \<le> np" by simp_all
      have "page_of int_text pg v = page_of int_text pg (PInt i)"
        using page_of_in_range [OF assms(1,2) Inr assms(3) r]
          page_of_in_range [where v = "PInt i", OF assms(1,2) _ assms(3) r] by simp
      moreover obtain p where "page_of int_text pg (PInt i) = Inr p"
        using page_of_number [OF assms r] by blast
      ultimately show ?thesis using Inr False by simp
    qed
  qed
qed

lemma deliver_page_requested:
  assumes "object_list pg = PQuerySet ds" and "0 < per_page pg" and "num_pages pg = Inr np"
    and "GET_get req ''pg'' = Some s" and "s \<noteq> []"
  shows "deliver_page int_text pg self req
         = page_of int_text pg (PInt (case int_text s of
                               None \<Rightarrow> 1
                             | Some i \<Rightarrow> if i < 1 \<or> np < i then np else i))"
proof -
  have "deliver_page int_text pg self req
        = (let r = page_of int_text pg (PStr s)
           in if r = Inl PageNotAnInteger then page_of int_text pg (PInt 1)
              else if r = Inl EmptyPage
                then and_then (num_pages pg) (\<lambda>n. page_of int_text pg (PInt n))
              else r)"
    using assms(4,5) by (simp add: deliver_page_def)
  also have "\<dots> = page_of int_text pg (PInt (case py_int int_text (PStr s) of
                               Inl e \<Rightarrow> 1
                             | Inr i \<Rightarrow> if i < 1 \<or> np < i then np else i))"
    by (rule page_with_fallback [OF assms(1,2,3)])
  finally show ?thesis by (simp split: option.splits)
qed

lemma deliver_page_default:
  assumes "object_list pg = PQuerySet ds" and "0 < per_page pg" and "num_pages pg = Inr np"
    and "GET_get req ''pg'' = None \<or> GET_get req ''pg'' = Some []"
    and "attrs self ''show_page_num'' = Some v"
  shows "deliver_page int_text pg self req
         = page_of int_text pg (PInt (case py_int int_text v of
                               Inl e \<Rightarrow> 1
                             | Inr i \<Rightarrow> if i < 1 \<or> np < i then np else i))"
proof -
  have "deliver_page int_text pg self req
        = (let r = page_of int_text pg v
           in if r = Inl PageNotAnInteger then page_of int_text pg (PInt 1)
              else if r = Inl EmptyPage
                then and_then (num_pages pg) (\<lambda>n. page_of int_text pg (PInt n))
              else r)"
    using assms(4,5) by (auto simp: deliver_page_def)
  then show ?thesis by (simp only: page_with_fallback [OF assms(1,2,3)])
qed

text \<open>Whatever the request asks for, a page is delivered, and it is a page of \<open>pg\<close>.\<close>

lemma deliver_page_total:
  assumes "object_list pg = PQuerySet ds" and "0 < per_page pg"
    and "attrs self ''show_page_num'' \<noteq> None"
  shows "\<exists>p. deliver_page int_text pg self req = Inr p \<and> page_paginator p = pg"
proof -
  obtain np where np: "num_pages pg = Inr np" "1 \<le> np"
    using num_pages_queryset [OF assms(1,2)] by blast
  obtain v where v: "attrs self ''show_page_num'' = Some v" using assms(3) by blast
  have any: "\<exists>p. page_of int_text pg (PInt (case x of Inl e \<Rightarrow> 1
                   | Inr i \<Rightarrow> if i < 1 \<or> np < i then np else i)) = Inr p
                 \<and> page_paginator p = pg" for x :: "exn + int"
  proof -
    have "1 \<le> (case x of Inl e \<Rightarrow> 1 | Inr i \<Rightarrow> if i < 1 \<or> np < i then np else i)"
      and "(case x of Inl e \<Rightarrow> 1 | Inr i \<Rightarrow> if i < 1 \<or> np < i then np else i) \<le> np"
      using np(2) by (auto split: sum.splits)
    from page_of_number [OF assms(1,2) np(1) this] show ?thesis by blast
  qed
  show ?thesis
  proof (cases "GET_get req ''pg''")
    case None
    then show ?thesis
      using deliver_page_default [where req = req, OF assms(1,2) np(1) _ v] any [of "py_int int_text v"] by simp
  next
    case (Some s)
    show ?thesis
    proof (cases "s = []")
      case True
      with Some show ?thesis
        using deliver_page_default [where req = req, OF assms(1,2) np(1) _ v] any [of "py_int int_text v"]
        by simp
    next
      case False
      have "(case int_text s of None \<Rightarrow> 1
             | Some i \<Rightarrow> if i < 1 \<or> np < i then np else i)
            = (case py_int int_text (PStr s) of Inl e \<Rightarrow> 1
               | Inr i \<Rightarrow> if i < 1 \<or> np < i then np else i)"
        by (simp split: option.splits)
      then show ?thesis
        using deliver_page_requested [where self = self, OF assms(1,2) np(1) Some False]
          any [of "py_int int_text (PStr s)"] by simp
    qed
  qed
qed


subsection \<open>The two listings\<close>

lemma listing_optionsD:
  assumes "listing_options self coll ds n m"
  shows "attrs self coll = Some (PQuerySet ds)"
    and "attrs self ''num_page_items'' = Some (PInt n)" and "0 < n"
    and "attrs self ''min_orphan_items'' = Some (PInt m)"
    and "attrs self ''show_page_num'' \<noteq> None"
    and "\<exists>d. attrs self ''description'' = Some d"
    and "\<exists>z. attrs self ''zero_items_message'' = Some z"
    and "\<exists>t. attrs self ''title'' = Some t"
    and "\<exists>u. attrs self ''pagination_base_url'' = Some u"
  using assms by (auto simp: listing_options_def)

lemma choose_description_queryset:
  assumes "object_list (page_paginator p) = PQuerySet ds"
    and "attrs self ''description'' = Some d" and "attrs self ''zero_items_message'' = Some z"
  shows "choose_description p self = Inr (if ds = [] then z else d)"
  using assms by (simp add: choose_description_def)

text \<open>\<open>render_deal_list\<close> on a well-configured view, once the page is known.\<close>

lemma render_deal_list_page:
  assumes "call_filter_deals_from_params int_text today (update_options self kw (map fst kw)) req
             = Inr self2"
    and "listing_options self2 ''deals'' ds n m"
    and "attrs self2 ''date_filter'' = Some df"
    and "deliver_page int_text \<lparr>object_list = PQuerySet ds, per_page = n, orphans = m\<rparr> self2 req = Inr p"
    and "page_paginator p = \<lparr>object_list = PQuerySet ds, per_page = n, orphans = m\<rparr>"
  shows "\<exists>l. render_deal_list int_text today self req kw
               = Inr (Rendered ''snippet_deal_listing.html'' l, self2)
             \<and> deals_page l = p
             \<and> Some (listing_description l)
                 = (if ds = [] then attrs self2 ''zero_items_message''
                    else attrs self2 ''description'')"
proof -
  note o = listing_optionsD [OF assms(2)]
  from o(6) obtain d where d: "attrs self2 ''description'' = Some d" by blast
  from o(7) obtain z where z: "attrs self2 ''zero_items_message'' = Some z" by blast
  from o(8) obtain t where t: "attrs self2 ''title'' = Some t" by blast
  from o(9) obtain u where u: "attrs self2 ''pagination_base_url'' = Some u" by blast
  have c: "choose_description p self2 = Inr (if ds = [] then z else d)"
    using assms(5) d z by (simp add: choose_description_queryset)
  show ?thesis
    using assms(1,3,4) o(1,2,4) c d z t u
    by (simp add: render_deal_list_def Paginator_def)
qed

text \<open>\<open>CollectionsBaseView.get\<close> on a well-configured view, once the page is known.\<close>

lemma CollectionsBaseView_get_page:
  assumes "listing_options self ''queryset'' ds n m"
    and "attrs self ''template'' = Some tpl"
    and "deliver_page int_text \<lparr>object_list = PQuerySet ds, per_page = n, orphans = m\<rparr> self (request self)
           = Inr p"
    and "page_paginator p = \<lparr>object_list = PQuerySet ds, per_page = n, orphans = m\<rparr>"
  shows "\<exists>r c. CollectionsBaseView_get int_text self = Inr (r, self)
             \<and> response_context r = CollectionsContext c
             \<and> collections_page c = p
             \<and> Some (context_description c)
                 = (if ds = [] then attrs self ''zero_items_message''
                    else attrs self ''description'')"
proof -
  note o = listing_optionsD [OF assms(1)]
  from o(6) obtain d where d: "attrs self ''description'' = Some d" by blast
  from o(7) obtain z where z: "attrs self ''zero_items_message'' = Some z" by blast
  from o(8) obtain t where t: "attrs self ''title'' = Some t" by blast
  from o(9) obtain u where u: "attrs self ''pagination_base_url'' = Some u" by blast
  have c: "choose_description p self = Inr (if ds = [] then z else d)"
    using assms(4) d z by (simp add: choose_description_queryset)
  show ?thesis
    using assms(2,3) o(1,2,4) c d z t u
    by (simp add: CollectionsBaseView_get_def Paginator_def)
qed



subsection \<open>The attributes of a view after its options are overridden\<close>

lemma attrs_field_updates [simp]:
  "attrs (self\<lparr>request := r\<rparr>) = attrs self"
  "attrs (self\<lparr>kwargs := k\<rparr>) = attrs self"
  "attrs (self\<lparr>rendered_deal_list := x\<rparr>) = attrs self"
  "attrs (self\<lparr>view_context := c\<rparr>) = attrs self"
  by (simp_all add: attrs_def)

lemma attrs_update_options:
  assumes "\<forall>df. map_of kw ''__dict__'' \<noteq> Some (PDateFilter df)"
  shows "attrs (update_options self kw names) n =
     (if n \<in> set names \<and> n \<notin> protocol_names then Some (kwargs_get kw n) else attrs self n)"
  by (simp add: update_options_inst_attrs [OF assms] attrs_def map_add_def split: option.splits)

lemma update_options_fields:
  assumes "\<forall>df. map_of kw ''__dict__'' \<noteq> Some (PDateFilter df)"
  shows "request (update_options self kw names) = request self"
    and "kwargs (update_options self kw names) = kwargs self"
    and "model (update_options self kw names) = model self"
    and "rendered_deal_list (update_options self kw names) = rendered_deal_list self"
    and "view_context (update_options self kw names) = view_context self"
  by (simp_all add: update_options_inst_attrs [OF assms])

lemma example_view_attrs:
  "attrs example_view = map_of (DealListBaseView_attrs example_deals example_choices)"
  by (simp add: attrs_def example_view_def)

lemma example_collections_view_attrs:
  "attrs example_collections_view =
     map_of ([(''queryset'', PQuerySet example_deals), (''template'', PStr ''collection.html'')]
             @ CollectionsBaseView_attrs)"
  by (simp add: attrs_def example_collections_view_def)

lemma example_items_view_attrs:
  "attrs example_items_view =
     map_of ([(''slug_name'', PStr ''category_slug''),
              (''not_found'', PStr ''Category not found''),
              (''template'', PStr ''deals/deal_list_base.html'')]
             @ DealCollectionItemsListBaseView_attrs example_deals example_choices)"
  by (simp add: attrs_def example_items_view_def)

lemma example_items_view_fields:
  "request example_items_view = \<lparr>GET = []\<rparr>"
  "kwargs example_items_view = [(''category_slug'', ''beauty'')]"
  "model example_items_view = Some [\<lparr>instance_pk = 1, instance_slug = ''beauty''\<rparr>]"
  by (simp_all add: example_items_view_def)
lemma render_deal_list_delivers:
  assumes "call_filter_deals_from_params int_text today (update_options self kw (map fst kw)) req
             = Inr self2"
    and "listing_options self2 ''deals'' ds n m"
    and "attrs self2 ''date_filter'' \<noteq> None"
    and "num_pages \<lparr>object_list = PQuerySet ds, per_page = n, orphans = m\<rparr> = Inr np"
    and "1 \<le> i" and "i \<le> np"
    and "deliver_page int_text \<lparr>object_list = PQuerySet ds, per_page = n, orphans = m\<rparr> self2 req
           = page_of int_text \<lparr>object_list = PQuerySet ds, per_page = n, orphans = m\<rparr> (PInt i)"
  shows "\<exists>l. render_deal_list int_text today self req kw
               = Inr (Rendered ''snippet_deal_listing.html'' l, self2)
             \<and> number (deals_page l) = i
             \<and> page_of int_text \<lparr>object_list = PQuerySet ds, per_page = n, orphans = m\<rparr> (PInt i)
                 = Inr (deals_page l)"
proof -
  let ?pg = "\<lparr>object_list = PQuerySet ds, per_page = n, orphans = m\<rparr>"
  have n: "0 < per_page ?pg" using listing_optionsD(3) [OF assms(2)] by simp
  obtain p where p: "page_of int_text ?pg (PInt i) = Inr p" "number p = i" "page_paginator p = ?pg"
    using page_of_number [OF _ n assms(4,5,6)] by auto
  obtain df where df: "attrs self2 ''date_filter'' = Some df" using assms(3) by blast
  from render_deal_list_page [where int_text = int_text, OF assms(1,2) df _ p(3)]
    assms(7) p(1,2)
  show ?thesis by auto
qed

lemma CollectionsBaseView_get_delivers:
  assumes "listing_options self ''queryset'' ds n m"
    and "attrs self ''template'' \<noteq> None"
    and "num_pages \<lparr>object_list = PQuerySet ds, per_page = n, orphans = m\<rparr> = Inr np"
    and "1 \<le> i" and "i \<le> np"
    and "deliver_page int_text \<lparr>object_list = PQuerySet ds, per_page = n, orphans = m\<rparr> self
           (request self)
           = page_of int_text \<lparr>object_list = PQuerySet ds, per_page = n, orphans = m\<rparr> (PInt i)"
  shows "\<exists>r c. CollectionsBaseView_get int_text self = Inr (r, self)
             \<and> response_context r = CollectionsContext c
             \<and> number (collections_page c) = i
             \<and> page_of int_text \<lparr>object_list = PQuerySet ds, per_page = n, orphans = m\<rparr> (PInt i)
                 = Inr (collections_page c)"
proof -
  let ?pg = "\<lparr>object_list = PQuerySet ds, per_page = n, orphans = m\<rparr>"
  have n: "0 < per_page ?pg" using listing_optionsD(3) [OF assms(1)] by simp
  obtain p where p: "page_of int_text ?pg (PInt i) = Inr p" "number p = i" "page_paginator p = ?pg"
    using page_of_number [OF _ n assms(3,4,5)] by auto
  obtain tpl where tpl: "attrs self ''template'' = Some tpl" using assms(2) by blast
  from CollectionsBaseView_get_page [where int_text = int_text, OF assms(1) tpl _ p(3)]
    assms(6) p(1,2)
  show ?thesis by auto
qed

text \<open>
  C5. Let the parameter \<open>pg\<close> be present, not empty and a text that \<open>int\<close> rejects. On a
  view that is set up for listing (its collection a query set, a positive page size, the
  other listing options present; for \<open>render_deal_list\<close> after the overrides and the date
  filter, which must not raise), \<open>render_deal_list\<close> and \<open>CollectionsBaseView.get\<close> both
  return normally and the page they put into the context is page 1 of the paginator.
\<close>

theorem non_integer_page_delivers_first_page:
  assumes "GET_get req ''pg'' = Some s" and "s \<noteq> []" and "int_text s = None"
    and "call_filter_deals_from_params int_text today (update_options self kw (map fst kw)) req
           = Inr self2"
    and "listing_options self2 ''deals'' ds n m" and "attrs self2 ''date_filter'' \<noteq> None"
    and "request cv = req" and "listing_options cv ''queryset'' qs k j"
    and "attrs cv ''template'' \<noteq> None"
  shows "(\<exists>l. render_deal_list int_text today self req kw
               = Inr (Rendered ''snippet_deal_listing.html'' l, self2)
             \<and> number (deals_page l) = 1
             \<and> page_of int_text \<lparr>object_list = PQuerySet ds, per_page = n, orphans = m\<rparr> (PInt 1)
                 = Inr (deals_page l))
       \<and> (\<exists>r c. CollectionsBaseView_get int_text cv = Inr (r, cv)
             \<and> response_context r = CollectionsContext c
             \<and> number (collections_page c) = 1
             \<and> page_of int_text \<lparr>object_list = PQuerySet qs, per_page = k, orphans = j\<rparr> (PInt 1)
                 = Inr (collections_page c))"
proof
  let ?pg = "\<lparr>object_list = PQuerySet ds, per_page = n, orphans = m\<rparr>"
  have n: "0 < per_page ?pg" using listing_optionsD(3) [OF assms(5)] by simp
  obtain np where np: "num_pages ?pg = Inr np" "1 \<le> np"
    using num_pages_queryset [OF _ n] by auto
  have "deliver_page int_text ?pg self2 req = page_of int_text ?pg (PInt 1)"
    using deliver_page_requested [where ds = ds and self = self2, OF _ n np(1) assms(1,2)] assms(3) by simp
  from render_deal_list_delivers [OF assms(4,5,6) np(1) _ np(2) this]
  show "\<exists>l. render_deal_list int_text today self req kw
               = Inr (Rendered ''snippet_deal_listing.html'' l, self2)
             \<and> number (deals_page l) = 1
             \<and> page_of int_text ?pg (PInt 1) = Inr (deals_page l)" by simp
next
  let ?pg = "\<lparr>object_list = PQuerySet qs, per_page = k, orphans = j\<rparr>"
  have k: "0 < per_page ?pg" using listing_optionsD(3) [OF assms(8)] by simp
  obtain np where np: "num_pages ?pg = Inr np" "1 \<le> np"
    using num_pages_queryset [OF _ k] by auto
  have "deliver_page int_text ?pg cv (request cv) = page_of int_text ?pg (PInt 1)"
    using deliver_page_requested
        [where ds = qs and req = req and s = s and self = cv, OF _ k np(1)] assms(1,2,3,7) by simp
  from CollectionsBaseView_get_delivers [OF assms(8,9) np(1) _ np(2) this]
  show "\<exists>r c. CollectionsBaseView_get int_text cv = Inr (r, cv)
             \<and> response_context r = CollectionsContext c
             \<and> number (collections_page c) = 1
             \<and> page_of int_text ?pg (PInt 1) = Inr (collections_page c)" by simp
qed

lemma example_view_passes_filter:
  "GET_get req ''dtf'' = None \<Longrightarrow>
   call_filter_deals_from_params example_int example_today (update_options example_view [] (map fst [])) req
     = Inr example_view"
  by (simp add: call_filter_deals_from_params_def filter_deals_from_params_def
      example_view_attrs DealListBaseView_attrs_def)

lemma example_view_options: "listing_options example_view ''deals'' example_deals 15 2"
  by (simp add: listing_options_def example_view_attrs DealListBaseView_attrs_def)

lemma example_collections_view_options:
  "listing_options (example_collections_view\<lparr>request := req\<rparr>) ''queryset'' example_deals 9 3"
  by (simp add: listing_options_def example_collections_view_attrs CollectionsBaseView_attrs_def)

theorem non_integer_page_delivers_first_page_witness:
  "(\<exists>l. render_deal_list example_int example_today example_view \<lparr>GET = [(''pg'', ''abc'')]\<rparr> []
           = Inr (Rendered ''snippet_deal_listing.html'' l, example_view)
         \<and> number (deals_page l) = 1
         \<and> page_of example_int \<lparr>object_list = PQuerySet example_deals, per_page = 15, orphans = 2\<rparr> (PInt 1)
             = Inr (deals_page l))
   \<and> (\<exists>r c. CollectionsBaseView_get example_int
               (example_collections_view\<lparr>request := \<lparr>GET = [(''pg'', ''abc'')]\<rparr>\<rparr>)
           = Inr (r, example_collections_view\<lparr>request := \<lparr>GET = [(''pg'', ''abc'')]\<rparr>\<rparr>)
         \<and> response_context r = CollectionsContext c
         \<and> number (collections_page c) = 1
         \<and> page_of example_int \<lparr>object_list = PQuerySet example_deals, per_page = 9, orphans = 3\<rparr> (PInt 1)
             = Inr (collections_page c))"
proof -
  let ?req = "\<lparr>GET = [(''pg'', ''abc'')]\<rparr>"
  have pg: "GET_get ?req ''pg'' = Some ''abc''" "''abc'' \<noteq> []"
    by (simp_all add: GET_get_def)
  have ni: "example_int ''abc'' = None"
    by (simp add: example_int_def)
  have f: "call_filter_deals_from_params example_int example_today
             (update_options example_view [] (map fst [])) ?req = Inr example_view"
    by (rule example_view_passes_filter) (simp add: GET_get_def)
  have df: "attrs example_view ''date_filter'' \<noteq> None"
    by (simp add: example_view_attrs DealListBaseView_attrs_def)
  have rq: "request (example_collections_view\<lparr>request := ?req\<rparr>) = ?req" by simp
  have tp: "attrs (example_collections_view\<lparr>request := ?req\<rparr>) ''template'' \<noteq> None"
    by (simp add: example_collections_view_attrs)
  show ?thesis
    by (rule non_integer_page_delivers_first_page
        [OF pg ni f example_view_options df rq example_collections_view_options tp])
qed


text \<open>
  C6. Let the parameter \<open>pg\<close> be a text that \<open>int\<close> reads as an integer below 1 or
  above the number of pages (such a text is not empty). On views set up as for C5,
  \<open>render_deal_list\<close> and \<open>CollectionsBaseView.get\<close> both return normally and the page
  they put into the context is the last page of the paginator.
\<close>

theorem out_of_range_page_delivers_last_page:
  assumes pg: "GET_get req ''pg'' = Some s" and ne: "s \<noteq> []"
    and i: "int_text s = Some i"
    and f: "call_filter_deals_from_params int_text today (update_options self kw (map fst kw))
              req = Inr self2"
    and o: "listing_options self2 ''deals'' ds n m"
    and df: "attrs self2 ''date_filter'' \<noteq> None"
    and np: "num_pages \<lparr>object_list = PQuerySet ds, per_page = n, orphans = m\<rparr> = Inr np"
    and r: "i < 1 \<or> np < i"
    and rq: "request cv = req" and oc: "listing_options cv ''queryset'' qs k j"
    and tp: "attrs cv ''template'' \<noteq> None"
    and nq: "num_pages \<lparr>object_list = PQuerySet qs, per_page = k, orphans = j\<rparr> = Inr nq"
    and rc: "i < 1 \<or> nq < i"
  shows "(\<exists>l. render_deal_list int_text today self req kw
               = Inr (Rendered ''snippet_deal_listing.html'' l, self2)
             \<and> number (deals_page l) = np
             \<and> page_of int_text \<lparr>object_list = PQuerySet ds, per_page = n, orphans = m\<rparr>
                   (PInt np)
                 = Inr (deals_page l))
       \<and> (\<exists>r c. CollectionsBaseView_get int_text cv = Inr (r, cv)
             \<and> response_context r = CollectionsContext c
             \<and> number (collections_page c) = nq
             \<and> page_of int_text \<lparr>object_list = PQuerySet qs, per_page = k, orphans = j\<rparr>
                   (PInt nq)
                 = Inr (collections_page c))"
proof
  let ?pg = "\<lparr>object_list = PQuerySet ds, per_page = n, orphans = m\<rparr>"
  have n: "0 < per_page ?pg" using listing_optionsD(3) [OF o] by simp
  have np1: "1 \<le> np" using num_pages_queryset [OF _ n] np by auto
  have "deliver_page int_text ?pg self2 req = page_of int_text ?pg (PInt np)"
    using deliver_page_requested [where ds = ds and self = self2, OF _ n np pg ne] i r by simp
  from render_deal_list_delivers [OF f o df np np1 _ this]
  show "\<exists>l. render_deal_list int_text today self req kw
               = Inr (Rendered ''snippet_deal_listing.html'' l, self2)
             \<and> number (deals_page l) = np
             \<and> page_of int_text ?pg (PInt np) = Inr (deals_page l)" by simp
next
  let ?pg = "\<lparr>object_list = PQuerySet qs, per_page = k, orphans = j\<rparr>"
  have k: "0 < per_page ?pg" using listing_optionsD(3) [OF oc] by simp
  have nq1: "1 \<le> nq" using num_pages_queryset [OF _ k] nq by auto
  have "deliver_page int_text ?pg cv (request cv) = page_of int_text ?pg (PInt nq)"
    using deliver_page_requested
        [where ds = qs and req = req and s = s and self = cv, OF _ k nq] pg ne i rq rc by simp
  from CollectionsBaseView_get_delivers [OF oc tp nq nq1 _ this]
  show "\<exists>r c. CollectionsBaseView_get int_text cv = Inr (r, cv)
             \<and> response_context r = CollectionsContext c
             \<and> number (collections_page c) = nq
             \<and> page_of int_text ?pg (PInt nq) = Inr (collections_page c)" by simp
qed

text \<open>
  The witness is the example of the spec: sixteen deals, fifteen to a page, two orphans,
  so one page; the collections view, nine to a page with three orphans, has two. Page 7
  is asked for.
\<close>

theorem out_of_range_page_delivers_last_page_witness:
  "(\<exists>l. render_deal_list example_int example_today
           (assign example_view ''deals'' (PQuerySet sixteen_deals))
           \<lparr>GET = [(''pg'', ''7'')]\<rparr> []
           = Inr (Rendered ''snippet_deal_listing.html'' l,
                  assign example_view ''deals'' (PQuerySet sixteen_deals))
         \<and> number (deals_page l) = 1
         \<and> page_of example_int \<lparr>object_list = PQuerySet sixteen_deals, per_page = 15, orphans = 2\<rparr> (PInt 1)
             = Inr (deals_page l))
   \<and> (\<exists>r c. CollectionsBaseView_get example_int
               (assign (example_collections_view\<lparr>request := \<lparr>GET = [(''pg'', ''7'')]\<rparr>\<rparr>)
                  ''queryset'' (PQuerySet sixteen_deals))
           = Inr (r, assign (example_collections_view\<lparr>request := \<lparr>GET = [(''pg'', ''7'')]\<rparr>\<rparr>)
                       ''queryset'' (PQuerySet sixteen_deals))
         \<and> response_context r = CollectionsContext c
         \<and> number (collections_page c) = 2
         \<and> page_of example_int \<lparr>object_list = PQuerySet sixteen_deals, per_page = 9, orphans = 3\<rparr> (PInt 2)
             = Inr (collections_page c))"
proof -
  let ?req = "\<lparr>GET = [(''pg'', ''7'')]\<rparr>"
  let ?v = "assign example_view ''deals'' (PQuerySet sixteen_deals)"
  let ?c = "assign (example_collections_view\<lparr>request := ?req\<rparr>) ''queryset''
              (PQuerySet sixteen_deals)"
  have pg: "GET_get ?req ''pg'' = Some ''7''"
    by (simp add: GET_get_def)
  have ne: "''7'' \<noteq> []" by simp
  have i: "example_int ''7'' = Some 7"
    by (simp add: example_int_def)
  have f: "call_filter_deals_from_params example_int example_today (update_options ?v [] (map fst [])) ?req
             = Inr ?v"
    by (simp add: call_filter_deals_from_params_def filter_deals_from_params_def GET_get_def
        example_view_attrs DealListBaseView_attrs_def)
  have o: "listing_options ?v ''deals'' sixteen_deals 15 2"
    by (simp add: listing_options_def example_view_attrs DealListBaseView_attrs_def)
  have df: "attrs ?v ''date_filter'' \<noteq> None"
    by (simp add: example_view_attrs DealListBaseView_attrs_def)
  have np: "num_pages \<lparr>object_list = PQuerySet sixteen_deals, per_page = 15, orphans = 2\<rparr>
              = Inr 1"
    by (simp add: num_pages_def sixteen_deals_def)
  have rq: "request ?c = ?req" by (simp add: assign_def)
  have oc: "listing_options ?c ''queryset'' sixteen_deals 9 3"
    by (simp add: listing_options_def example_collections_view_attrs CollectionsBaseView_attrs_def)
  have tp: "attrs ?c ''template'' \<noteq> None"
    by (simp add: example_collections_view_attrs)
  have nq: "num_pages \<lparr>object_list = PQuerySet sixteen_deals, per_page = 9, orphans = 3\<rparr>
              = Inr 2"
    by (simp add: num_pages_def sixteen_deals_def)
  have r1: "(7::int) < 1 \<or> 1 < (7::int)" and r2: "(7::int) < 1 \<or> 2 < (7::int)"
    by simp_all
  show ?thesis
    by (rule out_of_range_page_delivers_last_page [OF pg ne i f o df np r1 rq oc tp nq r2])
qed

text \<open>
  C7. On views set up as for C5, whatever page the request asks for (no page, any text,
  any number), \<open>render_deal_list\<close> and \<open>CollectionsBaseView.get\<close> both return normally,
  and the description in the context is the zero-items message when the paginated
  collection is empty and the configured description when it is not.
\<close>

theorem description_follows_count:
  assumes "call_filter_deals_from_params int_text today (update_options self kw (map fst kw)) req
           = Inr self2"
    and "listing_options self2 ''deals'' ds n m" and "attrs self2 ''date_filter'' \<noteq> None"
    and "request cv = req" and "listing_options cv ''queryset'' qs k j"
    and "attrs cv ''template'' \<noteq> None"
  shows "(\<exists>l. render_deal_list int_text today self req kw
               = Inr (Rendered ''snippet_deal_listing.html'' l, self2)
             \<and> Some (listing_description l)
                 = (if ds = [] then attrs self2 ''zero_items_message''
                    else attrs self2 ''description''))
       \<and> (\<exists>r c. CollectionsBaseView_get int_text cv = Inr (r, cv)
             \<and> response_context r = CollectionsContext c
             \<and> Some (context_description c)
                 = (if qs = [] then attrs cv ''zero_items_message''
                    else attrs cv ''description''))"
proof
  let ?pg = "\<lparr>object_list = PQuerySet ds, per_page = n, orphans = m\<rparr>"
  note o = listing_optionsD [OF assms(2)]
  obtain p where p: "deliver_page int_text ?pg self2 req = Inr p" "page_paginator p = ?pg"
    using deliver_page_total [where pg = ?pg and ds = ds and self = self2 and req = req] o(3,5) by auto
  obtain df where df: "attrs self2 ''date_filter'' = Some df" using assms(3) by blast
  from render_deal_list_page [OF assms(1,2) df p]
  show "\<exists>l. render_deal_list int_text today self req kw
               = Inr (Rendered ''snippet_deal_listing.html'' l, self2)
             \<and> Some (listing_description l)
                 = (if ds = [] then attrs self2 ''zero_items_message''
                    else attrs self2 ''description'')" by blast
next
  let ?pg = "\<lparr>object_list = PQuerySet qs, per_page = k, orphans = j\<rparr>"
  note o = listing_optionsD [OF assms(5)]
  obtain p where p: "deliver_page int_text ?pg cv (request cv) = Inr p" "page_paginator p = ?pg"
    using deliver_page_total
        [where pg = ?pg and ds = qs and self = cv and req = "request cv"] o(3,5) by auto
  obtain tpl where tpl: "attrs cv ''template'' = Some tpl" using assms(6) by blast
  from CollectionsBaseView_get_page [OF assms(5) tpl p]
  show "\<exists>r c. CollectionsBaseView_get int_text cv = Inr (r, cv)
             \<and> response_context r = CollectionsContext c
             \<and> Some (context_description c)
                 = (if qs = [] then attrs cv ''zero_items_message''
                    else attrs cv ''description'')" by blast
qed


text \<open>
  The witness asks for page 5 of an empty collection, in both views: the description is
  the zero-items message of the view.
\<close>

theorem description_follows_count_witness:
  "(\<exists>l. render_deal_list example_int example_today (assign example_view ''deals'' (PQuerySet []))
           \<lparr>GET = [(''pg'', ''5'')]\<rparr> []
           = Inr (Rendered ''snippet_deal_listing.html'' l,
                  assign example_view ''deals'' (PQuerySet []))
         \<and> listing_description l = PStr ''Sorry, no deals found!'')
   \<and> (\<exists>r c. CollectionsBaseView_get example_int
               (assign (example_collections_view\<lparr>request := \<lparr>GET = [(''pg'', ''5'')]\<rparr>\<rparr>)
                  ''queryset'' (PQuerySet []))
           = Inr (r, assign (example_collections_view\<lparr>request := \<lparr>GET = [(''pg'', ''5'')]\<rparr>\<rparr>)
                       ''queryset'' (PQuerySet []))
         \<and> response_context r = CollectionsContext c
         \<and> context_description c = PStr ''Sorry, no collection items found!'')"
proof -
  let ?req = "\<lparr>GET = [(''pg'', ''5'')]\<rparr>"
  let ?v = "assign example_view ''deals'' (PQuerySet [])"
  let ?c = "assign (example_collections_view\<lparr>request := ?req\<rparr>) ''queryset'' (PQuerySet [])"
  have f: "call_filter_deals_from_params example_int example_today (update_options ?v [] (map fst [])) ?req
             = Inr ?v"
    by (simp add: call_filter_deals_from_params_def filter_deals_from_params_def GET_get_def
        example_view_attrs DealListBaseView_attrs_def)
  have o: "listing_options ?v ''deals'' [] 15 2"
    by (simp add: listing_options_def example_view_attrs DealListBaseView_attrs_def)
  have df: "attrs ?v ''date_filter'' \<noteq> None"
    by (simp add: example_view_attrs DealListBaseView_attrs_def)
  have z: "attrs ?v ''zero_items_message'' = Some (PStr ''Sorry, no deals found!'')"
    by (simp add: example_view_attrs DealListBaseView_attrs_def)
  have rq: "request ?c = ?req" by (simp add: assign_def)
  have oc: "listing_options ?c ''queryset'' [] 9 3"
    by (simp add: listing_options_def example_collections_view_attrs CollectionsBaseView_attrs_def)
  have tp: "attrs ?c ''template'' \<noteq> None"
    by (simp add: example_collections_view_attrs)
  have zc: "attrs ?c ''zero_items_message'' = Some (PStr ''Sorry, no collection items found!'')"
    by (simp add: example_collections_view_attrs CollectionsBaseView_attrs_def)
  from description_follows_count [OF f o df rq oc tp]
  obtain l r c where l: "render_deal_list example_int example_today ?v ?req [] =
        Inr (Rendered ''snippet_deal_listing.html'' l, ?v)"
      "Some (listing_description l) = attrs ?v ''zero_items_message''"
    and r: "CollectionsBaseView_get example_int ?c = Inr (r, ?c)"
      "response_context r = CollectionsContext c"
      "Some (context_description c) = attrs ?c ''zero_items_message''"
    by auto
  from l(2) z have "listing_description l = PStr ''Sorry, no deals found!''" by simp
  moreover from r(3) zc
  have "context_description c = PStr ''Sorry, no collection items found!''" by simp
  ultimately show ?thesis using l(1) r(1,2) by blast
qed

text \<open>
  C9. When the parameter \<open>pg\<close> is present and empty, both views ask the paginator for
  the configured default page \<open>show_page_num\<close>: where that is a page the paginator has,
  it is the page delivered, whether or not it is page 1.
\<close>

theorem empty_page_parameter_uses_default_page:
  assumes "GET_get req ''pg'' = Some []"
    and "call_filter_deals_from_params int_text today (update_options self kw (map fst kw)) req
           = Inr self2"
    and "listing_options self2 ''deals'' ds n m" and "attrs self2 ''date_filter'' \<noteq> None"
    and "attrs self2 ''show_page_num'' = Some (PInt d)"
    and "num_pages \<lparr>object_list = PQuerySet ds, per_page = n, orphans = m\<rparr> = Inr np"
    and "1 \<le> d" and "d \<le> np"
    and "request cv = req" and "listing_options cv ''queryset'' qs k j"
    and "attrs cv ''template'' \<noteq> None"
    and "attrs cv ''show_page_num'' = Some (PInt e)"
    and "num_pages \<lparr>object_list = PQuerySet qs, per_page = k, orphans = j\<rparr> = Inr nq"
    and "1 \<le> e" and "e \<le> nq"
  shows "(\<exists>l. render_deal_list int_text today self req kw
               = Inr (Rendered ''snippet_deal_listing.html'' l, self2)
             \<and> number (deals_page l) = d
             \<and> page_of int_text \<lparr>object_list = PQuerySet ds, per_page = n, orphans = m\<rparr> (PInt d)
                 = Inr (deals_page l))
       \<and> (\<exists>r c. CollectionsBaseView_get int_text cv = Inr (r, cv)
             \<and> response_context r = CollectionsContext c
             \<and> number (collections_page c) = e
             \<and> page_of int_text \<lparr>object_list = PQuerySet qs, per_page = k, orphans = j\<rparr> (PInt e)
                 = Inr (collections_page c))"
proof
  let ?pg = "\<lparr>object_list = PQuerySet ds, per_page = n, orphans = m\<rparr>"
  have n: "0 < per_page ?pg" using listing_optionsD(3) [OF assms(3)] by simp
  have "deliver_page int_text ?pg self2 req = page_of int_text ?pg (PInt d)"
    using deliver_page_default [where ds = ds and req = req, OF _ n assms(6) _ assms(5)] assms(1,7,8) by simp
  from render_deal_list_delivers [OF assms(2,3,4,6,7,8) this]
  show "\<exists>l. render_deal_list int_text today self req kw
               = Inr (Rendered ''snippet_deal_listing.html'' l, self2)
             \<and> number (deals_page l) = d
             \<and> page_of int_text ?pg (PInt d) = Inr (deals_page l)" .
next
  let ?pg = "\<lparr>object_list = PQuerySet qs, per_page = k, orphans = j\<rparr>"
  have k: "0 < per_page ?pg" using listing_optionsD(3) [OF assms(10)] by simp
  have "deliver_page int_text ?pg cv (request cv) = page_of int_text ?pg (PInt e)"
    using deliver_page_default
        [where ds = qs and req = "request cv", OF _ k assms(13) _ assms(12)]
      assms(1,9,14,15) by simp
  from CollectionsBaseView_get_delivers [OF assms(10,11,13,14,15) this]
  show "\<exists>r c. CollectionsBaseView_get int_text cv = Inr (r, cv)
             \<and> response_context r = CollectionsContext c
             \<and> number (collections_page c) = e
             \<and> page_of int_text ?pg (PInt e) = Inr (collections_page c)" .
qed

text \<open>
  The witness sets the default page to 2 and lists the four example deals one to a page:
  with \<open>pg\<close> empty, page 2 is delivered, not page 1.
\<close>

theorem empty_page_parameter_uses_default_page_witness:
  "(\<exists>l. render_deal_list example_int example_today example_view \<lparr>GET = [(''pg'', [])]\<rparr>
           [(''show_page_num'', PInt 2), (''num_page_items'', PInt 1),
            (''min_orphan_items'', PInt 0)]
           = Inr (Rendered ''snippet_deal_listing.html'' l,
                  update_options example_view
                    [(''show_page_num'', PInt 2), (''num_page_items'', PInt 1),
                     (''min_orphan_items'', PInt 0)]
                    (map fst [(''show_page_num'', PInt 2), (''num_page_items'', PInt 1),
                              (''min_orphan_items'', PInt 0)]))
         \<and> number (deals_page l) = 2
         \<and> page_of example_int \<lparr>object_list = PQuerySet example_deals, per_page = 1, orphans = 0\<rparr> (PInt 2)
             = Inr (deals_page l))
   \<and> (\<exists>r c. CollectionsBaseView_get example_int
               (update_options (example_collections_view\<lparr>request := \<lparr>GET = [(''pg'', [])]\<rparr>\<rparr>)
                  [(''show_page_num'', PInt 2), (''num_page_items'', PInt 1),
                   (''min_orphan_items'', PInt 0)]
                  [''show_page_num'', ''num_page_items'', ''min_orphan_items''])
           = Inr (r, update_options
                       (example_collections_view\<lparr>request := \<lparr>GET = [(''pg'', [])]\<rparr>\<rparr>)
                       [(''show_page_num'', PInt 2), (''num_page_items'', PInt 1),
                        (''min_orphan_items'', PInt 0)]
                       [''show_page_num'', ''num_page_items'', ''min_orphan_items''])
         \<and> response_context r = CollectionsContext c
         \<and> number (collections_page c) = 2
         \<and> page_of example_int \<lparr>object_list = PQuerySet example_deals, per_page = 1, orphans = 0\<rparr> (PInt 2)
             = Inr (collections_page c))"
proof -
  let ?req = "\<lparr>GET = [(''pg'', [])]\<rparr>"
  let ?kw = "[(''show_page_num'', PInt 2), (''num_page_items'', PInt 1),
              (''min_orphan_items'', PInt 0)]"
  let ?v = "update_options example_view ?kw (map fst ?kw)"
  let ?c = "update_options (example_collections_view\<lparr>request := ?req\<rparr>) ?kw
              [''show_page_num'', ''num_page_items'', ''min_orphan_items'']"
  have pg: "GET_get ?req ''pg'' = Some []"
    by (simp add: GET_get_def)
  have nd: "\<forall>df. map_of ?kw ''__dict__'' \<noteq> Some (PDateFilter df)"
    by simp
  note uo = attrs_update_options [OF nd] update_options_fields [OF nd] protocol_names_def
  have f: "call_filter_deals_from_params example_int example_today ?v ?req = Inr ?v"
    by (simp add: call_filter_deals_from_params_def filter_deals_from_params_def GET_get_def
        example_view_attrs DealListBaseView_attrs_def uo
        del: update_options.simps)
  have o: "listing_options ?v ''deals'' example_deals 1 0"
    by (simp add: listing_options_def example_view_attrs DealListBaseView_attrs_def
        uo kwargs_get_def
        del: update_options.simps)
  have df: "attrs ?v ''date_filter'' \<noteq> None"
    by (simp add: example_view_attrs DealListBaseView_attrs_def uo
        del: update_options.simps)
  have sp: "attrs ?v ''show_page_num'' = Some (PInt 2)"
    by (simp add: uo kwargs_get_def
        del: update_options.simps)
  have np: "num_pages \<lparr>object_list = PQuerySet example_deals, per_page = 1, orphans = 0\<rparr>
              = Inr 4"
    by (simp add: num_pages_def example_deals_def)
  have rq: "request ?c = ?req" by (simp add: uo
        del: update_options.simps)
  have oc: "listing_options ?c ''queryset'' example_deals 1 0"
    by (simp add: listing_options_def example_collections_view_attrs CollectionsBaseView_attrs_def
        uo kwargs_get_def
        del: update_options.simps)
  have tp: "attrs ?c ''template'' \<noteq> None"
    by (simp add: example_collections_view_attrs uo
        del: update_options.simps)
  have sc: "attrs ?c ''show_page_num'' = Some (PInt 2)"
    by (simp add: uo kwargs_get_def
        del: update_options.simps)
  have r1: "(1::int) \<le> 2" and r2: "(2::int) \<le> 4" by simp_all
  show ?thesis
    by (rule empty_page_parameter_uses_default_page
        [OF pg f o df sp np r1 r2 rq oc tp sc np r1 r2])
qed


subsection \<open>The return value of the collection items view\<close>

text \<open>
  C10. When the slug lookup succeeds and the rest of \<open>get\<close> raises nothing, so that
  \<open>do_render\<close> returns its response, \<open>DealCollectionItemsListBaseView.get\<close> returns
  \<open>None\<close>: the response of \<open>do_render\<close> is dropped.
\<close>

theorem get_returns_None:
  assumes "attrs self ''slug_name'' = Some slug_name"
    and "kwargs_slug (kwargs self) slug_name = Inr slug"
    and "get_queryset self slug = Inr (q, self1)"
    and "filter_deals Deal_objects_filter self1 kw = Inr self2"
    and "\<not> isl (do_render int_text today
                   (set_description (set_title self2 (PStr ''some title''))
                      (PStr ''some desc'')))"
  shows "map_sum id fst (DealCollectionItemsListBaseView_get int_text Deal_objects_filter today self kw)
           = Inr None"
proof -
  obtain resp self5 where
    "do_render int_text today (set_description (set_title self2 (PStr ''some title''))
       (PStr ''some desc'')) = Inr (resp, self5)"
    using assms(5) by (cases "do_render int_text today (set_description
      (set_title self2 (PStr ''some title'')) (PStr ''some desc''))") auto
  with assms(1-4) show ?thesis
    by (simp add: DealCollectionItemsListBaseView_get_def)
qed

theorem get_returns_None_witness:
  "map_sum id fst
     (DealCollectionItemsListBaseView_get example_int example_Deal_objects_filter example_today
        example_items_view [(''category_slug'', ''beauty'')])
     = Inr None"
proof -
  let ?row = "\<lparr>instance_pk = 1, instance_slug = ''beauty''\<rparr>"
  let ?v1 = "assign example_items_view ''queryset'' (PInstance ?row)"
  let ?v2 = "assign ?v1 ''deals'' (PQuerySet example_deals)"
  let ?v4 = "set_description (set_title ?v2 (PStr ''some title'')) (PStr ''some desc'')"
  let ?kw = "[(''deals'', PQuerySet example_deals), (''title'', PStr ''some title''),
              (''description'', PStr ''some desc'')]"
  have a: "attrs example_items_view ''slug_name'' = Some (PStr ''category_slug'')"
    by (simp add: example_items_view_attrs example_items_view_fields)
  have b: "kwargs_slug (kwargs example_items_view) (PStr ''category_slug'') = Inr (Some ''beauty'')"
    by (simp add: example_items_view_attrs example_items_view_fields)
  have c: "get_queryset example_items_view (Some ''beauty'') = Inr (PInstance ?row, ?v1)"
    by (simp add: get_queryset_def example_items_view_attrs example_items_view_fields)
  have d: "filter_deals example_Deal_objects_filter ?v1 [(''category_slug'', ''beauty'')]
             = Inr ?v2"
    by (simp add: filter_deals_def example_Deal_objects_filter_def)
  have nd: "\<forall>df. map_of ?kw ''__dict__'' \<noteq> Some (PDateFilter df)"
    by simp
  note defs = set_description_def set_title_def attrs_update_options [OF nd]
    update_options_fields [OF nd] protocol_names_def kwargs_get_def
    example_items_view_attrs example_items_view_fields
    DealCollectionItemsListBaseView_attrs_def DealListBaseView_attrs_def
  have rq: "request ?v4 = \<lparr>GET = []\<rparr>"
    by (simp add: defs del: update_options.simps)
  let ?v5 = "update_options ?v4 ?kw (map fst ?kw)"
  have nf: "attrs ?v5 ''filter_deals_from_params'' = None"
    by (simp add: defs del: update_options.simps)
  have f: "call_filter_deals_from_params example_int example_today ?v5 \<lparr>GET = []\<rparr> = Inr ?v5"
    using nf by (simp add: call_filter_deals_from_params_def filter_deals_from_params_def
        GET_get_def del: update_options.simps)
  have o: "listing_options ?v5 ''deals'' example_deals 15 2"
    by (simp add: listing_options_def defs del: update_options.simps)
  have df: "attrs ?v5 ''date_filter'' \<noteq> None"
    by (simp add: defs del: update_options.simps)
  obtain p where p: "deliver_page example_int \<lparr>object_list = PQuerySet example_deals, per_page = 15,
        orphans = 2\<rparr> ?v5 \<lparr>GET = []\<rparr> = Inr p"
      "page_paginator p = \<lparr>object_list = PQuerySet example_deals, per_page = 15, orphans = 2\<rparr>"
    using deliver_page_total [where pg = "\<lparr>object_list = PQuerySet example_deals,
        per_page = 15, orphans = 2\<rparr>" and ds = example_deals and self = ?v5
        and req = "\<lparr>GET = []\<rparr>" and int_text = example_int]
      listing_optionsD(5) [OF o]
    by auto
  obtain dfv where dfv: "attrs ?v5 ''date_filter'' = Some dfv" using df by blast
  obtain l where l: "render_deal_list example_int example_today ?v4 \<lparr>GET = []\<rparr> ?kw
      = Inr (Rendered ''snippet_deal_listing.html'' l, ?v5)"
    using render_deal_list_page [OF f o dfv p] by blast
  have tp: "attrs ?v5 ''template'' = Some (PStr ''deals/deal_list_base.html'')"
    by (simp add: defs del: update_options.simps)
  have g: "attrs ?v4 ''deals'' = Some (PQuerySet example_deals)"
      "attrs ?v4 ''title'' = Some (PStr ''some title'')"
      "attrs ?v4 ''description'' = Some (PStr ''some desc'')"
    by (simp_all add: defs del: update_options.simps)
  have e: "\<not> isl (do_render example_int example_today ?v4)"
    unfolding do_render_def using g rq l tp
    by (simp add: set_context_data_def Let_def)
  show ?thesis
    by (rule get_returns_None [OF a b c d e])
qed




end
